theory Spec2Isabelle
  imports Complex_Main "HOL-Library.Multiset" "HOL-Library.Sublist"
begin

section \<open>Files\<close>

text \<open>
  A browser \<open>File\<close> as the drop zone and the bitmap worker see it: its name, its
  declared MIME type and its size in bytes. Two \<open>File\<close> objects with the same name,
  type and size are still two objects, so the record carries the object's identity
  (\<open>content\<close>, the reference to its bytes) as well.
\<close>

record jsfile =
  name :: string
  ftype :: string
  fsize :: nat
  content :: nat

section \<open>The worker channel (src/utils/worker.ts)\<close>

text \<open>
  A wire frame \<open>{id, message}\<close>, in both directions. A callback is known by its
  identity; what the program does with it is recorded in the channel's log
  \<open>invoked\<close>, one entry per call \<open>cb(e.data.message)\<close>.
\<close>

record 'a frame =
  frame_id :: string
  message :: 'a

type_synonym callback = nat

text \<open>What \<open>worker.postMessage(frame, transferList)\<close> hands to the worker.\<close>

record ('m, 't) request =
  request_frame :: "'m frame"
  transferList :: "'t list option"

text \<open>
  The state behind one object returned by \<open>createWorker\<close>:
  \<^item> \<open>onmessage\<close>: the single handler slot \<open>worker.onmessage\<close>. The only handler the
    program ever stores there is the closure of \<open>post\<close>, which is determined by the
    \<open>id\<close> and the \<open>cb\<close> it captured;
  \<^item> \<open>posted\<close>: the requests that reached the worker, in order;
  \<^item> \<open>invoked\<close>: the log of callback invocations with their argument;
  \<^item> \<open>terminated\<close>: \<open>worker.terminate()\<close> has been called;
  \<^item> \<open>revoked\<close>: \<open>URL.revokeObjectURL(workerURL)\<close> has been called.
\<close>

record ('m, 't, 'r) channel =
  onmessage :: "(string \<times> callback) option"
  posted :: "('m, 't) request list"
  invoked :: "(callback \<times> 'r) list"
  terminated :: bool
  revoked :: bool

text \<open>
  \<open>getUniqueId = Math.random().toString(36).substring(2, 12)\<close>. The random number
  and its rendering in base 36 are floating point; the model takes the rendered
  string (\<open>0.\<close> followed by base-36 digits) as its argument and keeps what the
  program does with it: the characters at positions 2 to 11.
\<close>

definition getUniqueId :: "string \<Rightarrow> string" where
  "getUniqueId rnd36 = take 10 (drop 2 rnd36)"

text \<open>
  \<open>createWorker(fn)\<close>: a blob URL is created and a worker started from it; no handler is
  installed yet.
\<close>

definition createWorker :: "('m, 't, 'r) channel" where
  "createWorker =
     \<lparr>onmessage = None, posted = [], invoked = [], terminated = False, revoked = False\<rparr>"

text \<open>
  The platform's part, as the HTML standard gives it for a dedicated worker: a message
  posted to a terminated worker is discarded, \<open>terminate()\<close> empties the queue of
  messages coming from the worker, so that no message event is dispatched afterwards, and
  a message event calls the handler stored in \<open>onmessage\<close>, if there is one.
\<close>

definition worker_postMessage ::
  "('m, 't, 'r) channel \<Rightarrow> ('m, 't) request \<Rightarrow> ('m, 't, 'r) channel" where
  "worker_postMessage ch rq =
     (if terminated ch then ch else ch\<lparr>posted := posted ch @ [rq]\<rparr>)"

definition worker_terminate :: "('m, 't, 'r) channel \<Rightarrow> ('m, 't, 'r) channel" where
  "worker_terminate ch = ch\<lparr>terminated := True\<rparr>"

definition revokeObjectURL :: "('m, 't, 'r) channel \<Rightarrow> ('m, 't, 'r) channel" where
  "revokeObjectURL ch = ch\<lparr>revoked := True\<rparr>"

text \<open>
  The closure \<open>(e) => { if (e.data.id === id) { cb(e.data.message); } }\<close> of \<open>post\<close>, with
  the \<open>id\<close> and \<open>cb\<close> it captured.
\<close>

definition post_handler ::
  "string \<times> callback \<Rightarrow> 'r frame \<Rightarrow> ('m, 't, 'r) channel \<Rightarrow> ('m, 't, 'r) channel" where
  "post_handler h e ch =
     (if frame_id e = fst h then ch\<lparr>invoked := invoked ch @ [(snd h, message e)]\<rparr> else ch)"

definition message_event :: "('m, 't, 'r) channel \<Rightarrow> 'r frame \<Rightarrow> ('m, 't, 'r) channel" where
  "message_event ch e =
     (if terminated ch then ch
      else case onmessage ch of None \<Rightarrow> ch | Some h \<Rightarrow> post_handler h e ch)"

text \<open>
  \<open>post(message, cb, transferList)\<close>: draw an id, store the handler in
  \<open>worker.onmessage\<close> (replacing the one that was there), post the frame.
  \<open>rnd36\<close> is what \<open>Math.random().toString(36)\<close> returned in this call.
\<close>

definition post ::
  "('m, 't, 'r) channel \<Rightarrow> 'm \<Rightarrow> callback \<Rightarrow> 't list option \<Rightarrow> string \<Rightarrow> ('m, 't, 'r) channel"
  where
  "post ch msg cb tlist rnd36 =
     (let i = getUniqueId rnd36
      in worker_postMessage (ch\<lparr>onmessage := Some (i, cb)\<rparr>)
           \<lparr>request_frame = \<lparr>frame_id = i, message = msg\<rparr>, transferList = tlist\<rparr>)"

text \<open>\<open>transfer: (message, cb) => {}\<close> has an empty body.\<close>

definition transfer :: "('m, 't, 'r) channel \<Rightarrow> 'm \<Rightarrow> callback \<Rightarrow> ('m, 't, 'r) channel" where
  "transfer ch msg cb = ch"

text \<open>\<open>terminate()\<close>: \<open>worker.terminate(); URL.revokeObjectURL(workerURL)\<close>.\<close>

definition terminate :: "('m, 't, 'r) channel \<Rightarrow> ('m, 't, 'r) channel" where
  "terminate ch = revokeObjectURL (worker_terminate ch)"

text \<open>
  Everything that can happen to a channel: a call of one of its three methods, or a
  message arriving from the worker. \<open>run\<close> applies a sequence of such events in order.
\<close>

datatype ('m, 't, 'r) event =
    Post 'm callback "'t list option" string
  | Transfer 'm callback
  | Message "'r frame"
  | Terminate

fun step :: "('m, 't, 'r) channel \<Rightarrow> ('m, 't, 'r) event \<Rightarrow> ('m, 't, 'r) channel" where
  "step ch (Post msg cb tlist rnd36) = post ch msg cb tlist rnd36"
| "step ch (Transfer msg cb) = transfer ch msg cb"
| "step ch (Message e) = message_event ch e"
| "step ch Terminate = terminate ch"

definition run :: "('m, 't, 'r) channel \<Rightarrow> ('m, 't, 'r) event list \<Rightarrow> ('m, 't, 'r) channel" where
  "run ch evs = foldl step ch evs"

text \<open>The ids of the calls that reached the worker.\<close>

definition issued_ids :: "('m, 't, 'r) channel \<Rightarrow> string set" where
  "issued_ids ch = set (map (\<lambda>rq. frame_id (request_frame rq)) (posted ch))"

subsection \<open>The bitmap worker\<close>

text \<open>
  \<open>BitmapWorker\<close> installs one handler on \<open>self.onmessage\<close>. For a request frame
  \<open>{id, message: {file}}\<close> it calls \<open>createImageBitmap(file)\<close> and, in the promise's
  \<open>then\<close>, posts \<open>{id: e.data.id, message: bitmap}\<close> with transfer list \<open>[bitmap]\<close>.
  There is no \<open>catch\<close>: when the promise rejects, nothing is posted.
  \<open>createImageBitmap\<close> is the platform's decoder, a parameter of the model: \<open>Some\<close> is
  the bitmap the promise resolves to, \<open>None\<close> a rejected promise.
  The result is the list of \<open>self.postMessage\<close> calls the handler makes for the frame.
\<close>

record bitmap_message =
  msg_file :: jsfile

record 'b response =
  response_frame :: "'b frame"
  transfer_list :: "'b list"

definition BitmapWorker_onmessage ::
  "(jsfile \<Rightarrow> 'b option) \<Rightarrow> bitmap_message frame \<Rightarrow> 'b response list" where
  "BitmapWorker_onmessage createImageBitmap e =
     (case createImageBitmap (msg_file (message e)) of
        None \<Rightarrow> []
      | Some bitmap \<Rightarrow>
          [\<lparr>response_frame = \<lparr>frame_id = frame_id e, message = bitmap\<rparr>,
            transfer_list = [bitmap]\<rparr>])"

text \<open>
  A decoder for the examples: it resolves for a file whose declared type starts with
  \<open>image/\<close> (to a bitmap named by the file's content reference) and rejects every other
  file.
\<close>

definition decode_images :: "jsfile \<Rightarrow> nat option" where
  "decode_images f = (if take 6 (ftype f) = ''image/'' then Some (content f) else None)"

section \<open>The drop zone (src/components/DropZone.tsx)\<close>

subsection \<open>Props and state\<close>

datatype panel_layout = Integrated | Compact | Circle

text \<open>The string a layout is written as in the props: \<open>'integrated' | 'compact' | 'circle'\<close>.\<close>

fun layout_string :: "panel_layout \<Rightarrow> string" where
  "layout_string Integrated = ''integrated''"
| "layout_string Compact = ''compact''"
| "layout_string Circle = ''circle''"

text \<open>
  The props the handlers read. An optional prop is an \<open>option\<close>; \<open>allowMultiple\<close>,
  \<open>disabled\<close> and \<open>panelLayout\<close> carry their defaults (\<open>true\<close>, \<open>false\<close>,
  \<open>'integrated'\<close>) when the caller leaves them out. The three size props are strings
  such as \<open>10MB\<close> in the source; they are handed unread to the helpers of
  \<open>utils/fileValidation\<close>, and the model holds the number of bytes each one stands for.
  A callback prop holds the identity of the function the caller passed, or \<open>None\<close> when
  the caller passed none: React compares functions by identity.
\<close>

record props =
  accept :: "string option"
  allowMultiple :: bool
  maxFileSize :: "nat option"
  minFileSize :: "nat option"
  maxTotalFileSize :: "nat option"
  disabled :: bool
  panelLayout :: panel_layout
  panelAspectRatio :: "string option"
  onDrop :: "callback option"
  onDropAccepted :: "callback option"
  onDropRejected :: "callback option"

datatype error_kind =
  TypeRejected | SizeTooSmall | SizeTooLarge | TotalSizeExceeded | MultipleNotAllowed

record validation_error =
  error_file :: jsfile
  kind :: error_kind

text \<open>
  A call of one of the caller's callbacks: the prop it was passed as, the function called
  and its arguments.
\<close>

datatype callback_call =
    OnDrop callback "jsfile list" "jsfile list" "jsfile list" "validation_error list"
  | OnDropAccepted callback "jsfile list"
  | OnDropRejected callback "jsfile list"

text \<open>
  The component's state (\<open>useState\<close>, \<open>useRef\<close>), the log of the callbacks it has
  called, and the number of events \<open>cancelDefaultEvent\<close> has been applied to.
\<close>

record dropzone_state =
  dragEnter :: bool
  hasError :: bool
  draggedRejectedFiles :: "jsfile list"
  calls :: "callback_call list"
  cancelled :: nat

subsection \<open>The helpers of utils/fileValidation\<close>

text \<open>
  The type matcher (\<open>AcceptPatternMatcher\<close>) is a parameter \<open>matches\<close> of everything
  below: a predicate on a file and the \<open>accept\<close> prop. Nothing proved here depends on what
  it answers. \<open>matches_every_file\<close> is the matcher at an undefined \<open>accept\<close>, where it
  matches every file; the examples use it with \<open>accept = None\<close>.
\<close>

type_synonym matcher = "jsfile \<Rightarrow> string option \<Rightarrow> bool"

definition matches_every_file :: matcher where
  "matches_every_file f a = True"

text \<open>
  Modelled from the spec: \<open>checkFileAcceptance\<close> of \<open>utils/fileValidation\<close> is not among
  the sources; \<open>filterValidFiles\<close> calls it as
  \<open>checkFileAcceptance(fileList, accept, maxFileSize, minFileSize)\<close> and reads
  \<open>acceptedFiles\<close> and \<open>rejectedFiles\<close> off its result. The spec (4.3, step 1): in input
  order, a file is rejected if the matcher fails, else if its size is outside
  \<open>[minSize, maxSize]\<close> (an unset bound does not constrain), else it is tentatively
  accepted.
\<close>

definition within_bounds :: "nat option \<Rightarrow> nat option \<Rightarrow> jsfile \<Rightarrow> bool" where
  "within_bounds mx mn f =
     ((case mn of None \<Rightarrow> True | Some lo \<Rightarrow> lo \<le> fsize f) \<and>
      (case mx of None \<Rightarrow> True | Some hi \<Rightarrow> fsize f \<le> hi))"

definition file_valid :: "matcher \<Rightarrow> string option \<Rightarrow> nat option \<Rightarrow> nat option \<Rightarrow> jsfile \<Rightarrow> bool"
  where
  "file_valid matches a mx mn f = (matches f a \<and> within_bounds mx mn f)"

definition checkFileAcceptance ::
  "matcher \<Rightarrow> jsfile list \<Rightarrow> string option \<Rightarrow> nat option \<Rightarrow> nat option \<Rightarrow>
     jsfile list \<times> jsfile list" where
  "checkFileAcceptance matches fileList a mx mn =
     (filter (file_valid matches a mx mn) fileList,
      filter (\<lambda>f. \<not> file_valid matches a mx mn f) fileList)"

text \<open>
  Modelled from the spec: \<open>getValidationErrors\<close> of \<open>utils/fileValidation\<close> is not among
  the sources; \<open>handleDrop\<close> calls it as
  \<open>getValidationErrors(rejectedFiles, accept, minFileSize, maxFileSize)\<close>. The spec (4.3,
  step 4): one entry per rejected file, naming the rule that rejected it. The helper is
  given neither \<open>allowMultiple\<close> nor \<open>maxTotalFileSize\<close>: a rejected file that passes the
  type and size rules was turned away by the cardinality rule, the only other rule the
  drop zone applies, and gets \<open>MultipleNotAllowed\<close>. The entry's \<open>detail\<close> text is left
  out.
\<close>

definition rejection_kind ::
  "matcher \<Rightarrow> string option \<Rightarrow> nat option \<Rightarrow> nat option \<Rightarrow> jsfile \<Rightarrow> error_kind" where
  "rejection_kind matches a mn mx f =
     (if \<not> matches f a then TypeRejected
      else if (case mn of None \<Rightarrow> False | Some lo \<Rightarrow> fsize f < lo) then SizeTooSmall
      else if (case mx of None \<Rightarrow> False | Some hi \<Rightarrow> hi < fsize f) then SizeTooLarge
      else MultipleNotAllowed)"

definition getValidationErrors ::
  "matcher \<Rightarrow> jsfile list \<Rightarrow> string option \<Rightarrow> nat option \<Rightarrow> nat option \<Rightarrow>
     validation_error list" where
  "getValidationErrors matches rejected a mn mx =
     map (\<lambda>f. \<lparr>error_file = f, kind = rejection_kind matches a mn mx f\<rparr>) rejected"

subsection \<open>filterValidFiles and handleDrop\<close>

record filtered =
  files :: "jsfile list"
  acceptedFiles :: "jsfile list"
  rejectedFiles :: "jsfile list"

text \<open>
  \<open>filterValidFiles(event)\<close>. The event is given by the file list
  \<open>getAllDragedFiles(event)\<close> reads off it. When \<open>allowMultiple\<close> is false and a file was
  accepted, the first accepted file is kept and the others are pushed onto the end of
  \<open>rejectedFiles\<close>. \<open>maxTotalFileSize\<close> is not read.
\<close>

definition filterValidFiles :: "matcher \<Rightarrow> props \<Rightarrow> jsfile list \<Rightarrow> filtered" where
  "filterValidFiles matches p fileList =
     (case checkFileAcceptance matches fileList (accept p) (maxFileSize p) (minFileSize p) of
        (accepted, rejected) \<Rightarrow>
          (case accepted of
             acceptedFile # remainingFiles \<Rightarrow>
               if \<not> allowMultiple p
               then \<lparr>files = fileList, acceptedFiles = [acceptedFile],
                      rejectedFiles = rejected @ remainingFiles\<rparr>
               else \<lparr>files = fileList, acceptedFiles = accepted, rejectedFiles = rejected\<rparr>
           | [] \<Rightarrow> \<lparr>files = fileList, acceptedFiles = accepted, rejectedFiles = rejected\<rparr>))"

text \<open>
  \<open>handleDrop(event)\<close>, the handler of both the \<open>drop\<close> event and the file input's
  \<open>change\<close> event: cancel the event's default; return if disabled; otherwise filter,
  build the errors, call the callbacks that are provided and reset the drag state.
  In JavaScript \<open>acceptedFiles.length && onDropAccepted\<close> holds when the list is not
  empty and the callback is provided.

  Both functions are closures. \<open>handleDrop\<close> reads \<open>disabled\<close>, \<open>accept\<close>,
  \<open>minFileSize\<close>, \<open>maxFileSize\<close> and the three callbacks from the props of the render
  that created it (\<open>p\<close>), and it calls the \<open>filterValidFiles\<close> it captured in that
  render, which reads the props of the render that created \<^emph>\<open>it\<close> (\<open>pf\<close>).
\<close>

definition handleDrop ::
  "matcher \<Rightarrow> props \<Rightarrow> props \<Rightarrow> dropzone_state \<Rightarrow> jsfile list \<Rightarrow> dropzone_state" where
  "handleDrop matches p pf st event_files =
     (let st1 = st\<lparr>cancelled := Suc (cancelled st)\<rparr>
      in if disabled p then st1
         else
           let r = filterValidFiles matches pf event_files;
               errors = getValidationErrors matches (rejectedFiles r) (accept p)
                          (minFileSize p) (maxFileSize p);
               c1 = (case onDrop p of
                       Some cb \<Rightarrow> [OnDrop cb (files r) (acceptedFiles r) (rejectedFiles r) errors]
                     | None \<Rightarrow> []);
               c2 = (case onDropAccepted p of
                       Some cb \<Rightarrow>
                         if length (acceptedFiles r) \<noteq> 0
                         then [OnDropAccepted cb (acceptedFiles r)] else []
                     | None \<Rightarrow> []);
               c3 = (case onDropRejected p of
                       Some cb \<Rightarrow>
                         if length (rejectedFiles r) \<noteq> 0
                         then [OnDropRejected cb (rejectedFiles r)] else []
                     | None \<Rightarrow> [])
           in st1\<lparr>calls := calls st1 @ c1 @ c2 @ c3, hasError := False, dragEnter := False,
                   draggedRejectedFiles := []\<rparr>)"

text \<open>
  The two closures are memoised with \<open>useCallback\<close>: a render keeps the closure of the
  render before unless a value of the dependency list has changed (compared with
  \<open>Object.is\<close>: strings and booleans by value, functions by identity), and then stores the
  closure it has just created. The lists are
  \<open>[accept, allowMultiple, draggedRejectedFiles]\<close> for \<open>filterValidFiles\<close>, where the ref
  object \<open>draggedRejectedFiles\<close> is the same in every render, and
  \<open>[disabled, onDrop, accept, onDropAccepted, onDropRejected]\<close> for \<open>handleDrop\<close>.
  \<open>handlers\<close> records which render's props each memoised closure reads:
  \<^item> \<open>filter_props\<close>: the memoised \<open>filterValidFiles\<close>;
  \<^item> \<open>drop_props\<close>: the memoised \<open>handleDrop\<close>;
  \<^item> \<open>drop_filter_props\<close>: the \<open>filterValidFiles\<close> that the memoised \<open>handleDrop\<close>
    captured, which is the one memoised in the render that created this \<open>handleDrop\<close>.
\<close>

record handlers =
  filter_props :: props
  drop_props :: props
  drop_filter_props :: props

definition filter_deps :: "props \<Rightarrow> string option \<times> bool" where
  "filter_deps p = (accept p, allowMultiple p)"

definition drop_deps ::
  "props \<Rightarrow> bool \<times> callback option \<times> string option \<times> callback option \<times> callback option"
  where
  "drop_deps p = (disabled p, onDrop p, accept p, onDropAccepted p, onDropRejected p)"

text \<open>The first render, and a later render with props \<open>p\<close>.\<close>

definition mount :: "props \<Rightarrow> handlers" where
  "mount p = \<lparr>filter_props = p, drop_props = p, drop_filter_props = p\<rparr>"

definition rerender :: "handlers \<Rightarrow> props \<Rightarrow> handlers" where
  "rerender h p =
     (let f = (if filter_deps p = filter_deps (filter_props h) then filter_props h else p)
      in if drop_deps p = drop_deps (drop_props h) then h\<lparr>filter_props := f\<rparr>
         else \<lparr>filter_props = f, drop_props = p, drop_filter_props = f\<rparr>)"

text \<open>
  A drop (or a change of the file input) on the rendered component: the event goes to the
  memoised \<open>handleDrop\<close>.
\<close>

definition drop_event ::
  "matcher \<Rightarrow> handlers \<Rightarrow> dropzone_state \<Rightarrow> jsfile list \<Rightarrow> dropzone_state" where
  "drop_event matches h st event_files =
     handleDrop matches (drop_props h) (drop_filter_props h) st event_files"

text \<open>The callbacks called between two states, oldest first.\<close>

definition fired :: "dropzone_state \<Rightarrow> dropzone_state \<Rightarrow> callback_call list" where
  "fired st st' = drop (length (calls st)) (calls st')"

text \<open>
  The props of a drop zone whose caller sets nothing: the defaults of the component's
  parameter list, every optional prop undefined, no callback provided. The state of a
  freshly mounted component: \<open>useState(false)\<close> twice, \<open>useRef([])\<close>, nothing called yet.
\<close>

definition default_props :: props where
  "default_props =
     \<lparr>accept = None, allowMultiple = True, maxFileSize = None, minFileSize = None,
      maxTotalFileSize = None, disabled = False, panelLayout = Integrated,
      panelAspectRatio = None, onDrop = None, onDropAccepted = None,
      onDropRejected = None\<rparr>"

definition initial_state :: dropzone_state where
  "initial_state =
     \<lparr>dragEnter = False, hasError = False, draggedRejectedFiles = [], calls = [],
      cancelled = 0\<rparr>"

text \<open>For the examples: the PNG image with the given identity and size in bytes.\<close>

definition png_file :: "nat \<Rightarrow> nat \<Rightarrow> jsfile" where
  "png_file n sz = \<lparr>name = ''image.png'', ftype = ''image/png'', fsize = sz, content = n\<rparr>"

subsection \<open>The panel's aspect ratio\<close>

text \<open>
  A JavaScript number as far as a ratio needs it: a rational, or one of the values that
  are not finite (a division by zero gives \<open>Infinity\<close> or \<open>NaN\<close>). Rounding to a double
  is not modelled.
\<close>

datatype jsnumber = Rational rat | NonFinite

datatype parse_error = InvalidFormat

text \<open>The value of a decimal digit is its position in the string of the ten digits.\<close>

fun position :: "'a \<Rightarrow> 'a list \<Rightarrow> nat option" where
  "position x [] = None"
| "position x (y # ys) = (if x = y then Some 0 else map_option Suc (position x ys))"

definition digit_value :: "char \<Rightarrow> nat option" where
  "digit_value c = position c ''0123456789''"

fun digits_value :: "nat \<Rightarrow> string \<Rightarrow> nat option" where
  "digits_value acc [] = Some acc"
| "digits_value acc (c # cs) =
     (case digit_value c of None \<Rightarrow> None | Some d \<Rightarrow> digits_value (10 * acc + d) cs)"

definition parse_digits :: "string \<Rightarrow> nat option" where
  "parse_digits s = (if s = [] then None else digits_value 0 s)"

text \<open>A number: decimal digits, optionally followed by a point and more digits.\<close>

definition parse_number :: "string \<Rightarrow> rat option" where
  "parse_number s =
     (case dropWhile (\<lambda>c. c \<noteq> CHR ''.'') s of
        [] \<Rightarrow> map_option of_nat (parse_digits s)
      | _ # fdigits \<Rightarrow>
          (case (parse_digits (takeWhile (\<lambda>c. c \<noteq> CHR ''.'') s), parse_digits fdigits) of
             (Some a, Some b) \<Rightarrow> Some (of_nat a + of_nat b / 10 ^ length fdigits)
           | _ \<Rightarrow> None))"

definition ratio :: "rat \<Rightarrow> rat \<Rightarrow> jsnumber" where
  "ratio w h = (if h = 0 then NonFinite else Rational (w / h))"

text \<open>
  Modelled from the spec: \<open>getNumericAspectRatioFromString\<close> of \<open>utils/crop\<close> is not among
  the sources. The spec (4.6): the string \<open>W:H\<close> parsed as the number \<open>W/H\<close>;
  \<open>InvalidFormat\<close> for a string that is not \<open>number:number\<close>. The drop zone passes its
  optional prop \<open>panelAspectRatio\<close>, which may be undefined (\<open>None\<close>).
\<close>

definition getNumericAspectRatioFromString :: "string option \<Rightarrow> parse_error + jsnumber" where
  "getNumericAspectRatioFromString s =
     (case s of
        None \<Rightarrow> Inl InvalidFormat
      | Some str \<Rightarrow>
          (case dropWhile (\<lambda>c. c \<noteq> CHR '':'') str of
             [] \<Rightarrow> Inl InvalidFormat
           | _ # h \<Rightarrow>
               (case (parse_number (takeWhile (\<lambda>c. c \<noteq> CHR '':'') str), parse_number h) of
                  (Some a, Some b) \<Rightarrow> Inr (ratio a b)
                | _ \<Rightarrow> Inl InvalidFormat)))"

text \<open>\<open>/circle/.test(s)\<close>: the string \<open>circle\<close> occurs somewhere in \<open>s\<close>.\<close>

fun regex_test :: "string \<Rightarrow> string \<Rightarrow> bool" where
  "regex_test pat [] = (pat = [])"
| "regex_test pat (c # cs) = (prefix pat (c # cs) \<or> regex_test pat cs)"

text \<open>
  \<open>getPanelAspectRatio\<close>:
  \<open>/circle/.test(panelLayout) ? 1 : getNumericAspectRatioFromString(panelAspectRatio)\<close>.
\<close>

definition getPanelAspectRatio :: "props \<Rightarrow> parse_error + jsnumber" where
  "getPanelAspectRatio p =
     (let isShapeCircle = regex_test ''circle'' (layout_string (panelLayout p))
      in if isShapeCircle then Inr (Rational 1)
         else getNumericAspectRatioFromString (panelAspectRatio p))"

section \<open>Termination of a channel\<close>

lemma step_terminated:
  "terminated ch \<Longrightarrow>
     terminated (step ch ev) \<and> invoked (step ch ev) = invoked ch \<and>
     posted (step ch ev) = posted ch"
  by (cases ev)
     (simp_all add: post_def transfer_def message_event_def terminate_def
        worker_postMessage_def worker_terminate_def revokeObjectURL_def Let_def)

lemma step_revoked: "revoked ch \<Longrightarrow> revoked (step ch ev)"
  by (cases ev)
     (simp_all add: post_def transfer_def message_event_def post_handler_def terminate_def
        worker_postMessage_def worker_terminate_def revokeObjectURL_def Let_def
        split: option.splits)

lemma run_terminated:
  "terminated ch \<Longrightarrow>
     terminated (run ch evs) \<and> invoked (run ch evs) = invoked ch \<and>
     posted (run ch evs) = posted ch"
proof (induction evs arbitrary: ch)
  case Nil
  then show ?case by (simp add: run_def)
next
  case (Cons ev evs)
  from step_terminated [OF Cons.prems, of ev]
  have t: "terminated (step ch ev)"
    and eqs: "invoked (step ch ev) = invoked ch" "posted (step ch ev) = posted ch"
    by simp_all
  from Cons.IH [OF t] eqs show ?case by (simp add: run_def)
qed

lemma run_revoked: "revoked ch \<Longrightarrow> revoked (run ch evs)"
  by (induction evs arbitrary: ch) (simp_all add: run_def step_revoked)

text \<open>
  C6. After \<open>terminate()\<close>, whatever calls were outstanding and whatever happens next
  (further calls of \<open>post\<close>, \<open>transfer\<close> or \<open>terminate\<close>, messages still coming from the
  worker): no callback is invoked any more, the object URL has been revoked, the worker
  stays terminated and no further request reaches it.
\<close>

theorem terminate_abandons_pending:
  "invoked (run (terminate ch) evs) = invoked ch \<and>
   posted (run (terminate ch) evs) = posted ch \<and>
   revoked (run (terminate ch) evs) \<and>
   terminated (run (terminate ch) evs)"
proof -
  have t: "terminated (terminate ch)"
    by (simp add: terminate_def worker_terminate_def revokeObjectURL_def)
  have "invoked (terminate ch) = invoked ch" "posted (terminate ch) = posted ch"
    "revoked (terminate ch)"
    by (simp_all add: terminate_def worker_terminate_def revokeObjectURL_def)
  with run_terminated [OF t, of evs] run_revoked [of "terminate ch" evs]
  show ?thesis by simp
qed

section \<open>Routing of the worker's responses\<close>

lemma handler_issued_step:
  "terminated ch \<or> (\<forall>h. onmessage ch = Some h \<longrightarrow> fst h \<in> issued_ids ch) \<Longrightarrow>
   terminated (step ch ev) \<or>
     (\<forall>h. onmessage (step ch ev) = Some h \<longrightarrow> fst h \<in> issued_ids (step ch ev))"
  by (cases ev)
     (auto simp: post_def transfer_def message_event_def post_handler_def terminate_def
        worker_postMessage_def worker_terminate_def revokeObjectURL_def Let_def issued_ids_def
        split: option.splits)

lemma handler_issued_run:
  "terminated ch \<or> (\<forall>h. onmessage ch = Some h \<longrightarrow> fst h \<in> issued_ids ch) \<Longrightarrow>
   terminated (run ch evs) \<or>
     (\<forall>h. onmessage (run ch evs) = Some h \<longrightarrow> fst h \<in> issued_ids (run ch evs))"
proof (induction evs arbitrary: ch)
  case Nil
  then show ?case by (simp add: run_def)
next
  case (Cons ev evs)
  from Cons.IH [OF handler_issued_step [OF Cons.prems, of ev]]
  show ?case by (simp add: run_def)
qed

lemma handler_issued_createWorker:
  "terminated (run createWorker evs) \<or>
     (\<forall>h. onmessage (run createWorker evs) = Some h \<longrightarrow>
        fst h \<in> issued_ids (run createWorker evs))"
  by (rule handler_issued_run) (simp add: createWorker_def)

lemma unknown_id_dropped:
  assumes "terminated ch \<or> (\<forall>h. onmessage ch = Some h \<longrightarrow> fst h \<in> issued_ids ch)"
    and "frame_id e \<notin> issued_ids ch"
  shows "message_event ch e = ch"
  using assms by (auto simp: message_event_def post_handler_def split: option.splits)

text \<open>
  C1, at two calls that are outstanding together. The two ids differ, the worker answers
  both calls, each answer carrying the id of its request; the second \<open>post\<close> has replaced
  the handler of the first, so the first call's callback (1) is never invoked. Also, two
  random draws that agree in their first ten base-36 digits give the same id.
\<close>

theorem second_post_drops_first_callback:
  "invoked (run (createWorker :: (string, nat, string) channel)
     [Post ''a.png'' 1 None ''0.4fzyo82mvyr'', Post ''b.png'' 2 None ''0.9x3k1q7w0bd'',
      Message \<lparr>frame_id = ''4fzyo82mvy'', message = ''bitmap a''\<rparr>,
      Message \<lparr>frame_id = ''9x3k1q7w0b'', message = ''bitmap b''\<rparr>]) = [(2, ''bitmap b'')] \<and>
   getUniqueId ''0.4fzyo82mvyr'' \<noteq> getUniqueId ''0.9x3k1q7w0bd'' \<and>
   getUniqueId ''0.4fzyo82mvyr'' = getUniqueId ''0.4fzyo82mvy5z''"
  by (simp add: run_def post_def getUniqueId_def createWorker_def message_event_def
      post_handler_def worker_postMessage_def Let_def)

text \<open>
  C5 as stated fails: there is no pending map and nothing is removed when a response
  arrives. After one call and its response the handler is still installed, and a second
  response with the same id, which matches no call that is still outstanding, invokes the
  callback a second time.
\<close>

theorem handler_survives_response:
  "onmessage (run (createWorker :: (string, nat, string) channel)
     [Post ''a.png'' 1 None ''0.4fzyo82mvyr'',
      Message \<lparr>frame_id = ''4fzyo82mvy'', message = ''bitmap a''\<rparr>]) = Some (''4fzyo82mvy'', 1) \<and>
   invoked (run (createWorker :: (string, nat, string) channel)
     [Post ''a.png'' 1 None ''0.4fzyo82mvyr'',
      Message \<lparr>frame_id = ''4fzyo82mvy'', message = ''bitmap a''\<rparr>,
      Message \<lparr>frame_id = ''4fzyo82mvy'', message = ''bitmap a again''\<rparr>]) =
     [(1, ''bitmap a''), (1, ''bitmap a again'')]"
  by (simp add: run_def post_def getUniqueId_def createWorker_def message_event_def
      post_handler_def worker_postMessage_def Let_def)

text \<open>
  C5, amended. On a live channel, a response that carries the id of the call just issued
  invokes that call's callback exactly once, with the response's payload, and changes
  nothing else (the handler stays installed). On a channel reached from \<open>createWorker\<close>
  by any sequence of events, a response whose id is the id of no call issued on the channel
  is dropped: the state does not change and no callback is invoked.
\<close>

theorem response_routing:
  "(\<not> terminated ch \<and> frame_id e = getUniqueId rnd36 \<longrightarrow>
      message_event (post ch msg cb tlist rnd36) e =
        (post ch msg cb tlist rnd36)
          \<lparr>invoked := invoked (post ch msg cb tlist rnd36) @ [(cb, message e)]\<rparr>) \<and>
   (frame_id e \<notin> issued_ids (run createWorker evs) \<longrightarrow>
      message_event (run createWorker evs) e = run createWorker evs)"
proof (intro conjI impI)
  assume "\<not> terminated ch \<and> frame_id e = getUniqueId rnd36"
  then show "message_event (post ch msg cb tlist rnd36) e =
        (post ch msg cb tlist rnd36)
          \<lparr>invoked := invoked (post ch msg cb tlist rnd36) @ [(cb, message e)]\<rparr>"
    by (simp add: message_event_def post_handler_def post_def worker_postMessage_def Let_def)
next
  assume a: "frame_id e \<notin> issued_ids (run createWorker evs)"
  from unknown_id_dropped [OF handler_issued_createWorker a]
  show "message_event (run createWorker evs) e = run createWorker evs" .
qed

theorem response_routing_witness:
  "invoked (message_event
      (post (createWorker :: (string, nat, string) channel) ''a.png'' 1 None ''0.4fzyo82mvyr'')
      \<lparr>frame_id = ''4fzyo82mvy'', message = ''bitmap a''\<rparr>) = [(1, ''bitmap a'')] \<and>
   invoked (message_event
      (run (createWorker :: (string, nat, string) channel)
         [Post ''a.png'' 1 None ''0.4fzyo82mvyr''])
      \<lparr>frame_id = ''zzzzzzzzzz'', message = ''stray''\<rparr>) = []"
proof -
  let ?ch = "createWorker :: (string, nat, string) channel"
  let ?e = "\<lparr>frame_id = ''4fzyo82mvy'', message = ''bitmap a''\<rparr>"
  let ?stray = "\<lparr>frame_id = ''zzzzzzzzzz'', message = ''stray''\<rparr>"
  have h1: "\<not> terminated ?ch \<and> frame_id ?e = getUniqueId ''0.4fzyo82mvyr''"
    by (simp add: createWorker_def getUniqueId_def)
  have h2: "frame_id ?stray \<notin> issued_ids (run ?ch [Post ''a.png'' 1 None ''0.4fzyo82mvyr''])"
    by (simp add: run_def post_def getUniqueId_def createWorker_def issued_ids_def
        worker_postMessage_def Let_def)
  from response_routing [of ?ch ?e "''0.4fzyo82mvyr''" "''a.png''" 1 None "[]"] h1
  have a: "message_event (post ?ch ''a.png'' 1 None ''0.4fzyo82mvyr'') ?e =
      (post ?ch ''a.png'' 1 None ''0.4fzyo82mvyr'')
        \<lparr>invoked := invoked (post ?ch ''a.png'' 1 None ''0.4fzyo82mvyr'') @ [(1, message ?e)]\<rparr>"
    by blast
  from response_routing [of ?ch ?stray "''0.4fzyo82mvyr''" "''a.png''" 1 None
      "[Post ''a.png'' 1 None ''0.4fzyo82mvyr'']"] h2
  have b: "message_event (run ?ch [Post ''a.png'' 1 None ''0.4fzyo82mvyr'']) ?stray =
      run ?ch [Post ''a.png'' 1 None ''0.4fzyo82mvyr'']"
    by blast
  have c: "invoked (post ?ch ''a.png'' 1 None ''0.4fzyo82mvyr'') = []"
    by (simp add: post_def createWorker_def worker_postMessage_def Let_def)
  have d: "invoked (run ?ch [Post ''a.png'' 1 None ''0.4fzyo82mvyr'']) = []"
    by (simp add: run_def post_def createWorker_def worker_postMessage_def Let_def)
  show ?thesis using c d by (simp only: a b) simp
qed

section \<open>The bitmap worker's responses\<close>

text \<open>
  C9 as stated fails: a request whose file the decoder rejects (here a text file) gets no
  response frame at all.
\<close>

theorem bitmap_worker_silent_on_failure:
  "BitmapWorker_onmessage decode_images
     \<lparr>frame_id = ''4fzyo82mvy'',
      message = \<lparr>msg_file = \<lparr>name = ''notes.txt'', ftype = ''text/plain'', fsize = 12,
                               content = 7\<rparr>\<rparr>\<rparr> = []"
  by (simp add: BitmapWorker_onmessage_def decode_images_def)

text \<open>
  C9, amended. For a request frame whose file \<open>createImageBitmap\<close> decodes, the worker
  posts exactly one response frame: it carries the id of the request and the decoded
  bitmap as its message, and lists the bitmap as its one transferable. For a request frame
  whose file \<open>createImageBitmap\<close> rejects, the worker posts nothing.
\<close>

theorem bitmap_worker_response:
  "(createImageBitmap (msg_file (message e)) = Some bitmap \<longrightarrow>
      BitmapWorker_onmessage createImageBitmap e =
        [\<lparr>response_frame = \<lparr>frame_id = frame_id e, message = bitmap\<rparr>,
          transfer_list = [bitmap]\<rparr>]) \<and>
   (createImageBitmap (msg_file (message e)) = None \<longrightarrow>
      BitmapWorker_onmessage createImageBitmap e = [])"
  by (simp add: BitmapWorker_onmessage_def)

theorem bitmap_worker_response_witness:
  "BitmapWorker_onmessage decode_images
     \<lparr>frame_id = ''4fzyo82mvy'', message = \<lparr>msg_file = png_file 7 2048\<rparr>\<rparr> =
     [\<lparr>response_frame = \<lparr>frame_id = ''4fzyo82mvy'', message = 7\<rparr>, transfer_list = [7]\<rparr>] \<and>
   BitmapWorker_onmessage decode_images
     \<lparr>frame_id = ''9x3k1q7w0b'',
      message = \<lparr>msg_file = \<lparr>name = ''notes.txt'', ftype = ''text/plain'', fsize = 12,
                               content = 8\<rparr>\<rparr>\<rparr> = []"
  using bitmap_worker_response [of decode_images
      "\<lparr>frame_id = ''4fzyo82mvy'', message = \<lparr>msg_file = png_file 7 2048\<rparr>\<rparr>" 7]
    bitmap_worker_response [of decode_images
      "\<lparr>frame_id = ''9x3k1q7w0b'',
        message = \<lparr>msg_file = \<lparr>name = ''notes.txt'', ftype = ''text/plain'', fsize = 12,
                                 content = 8\<rparr>\<rparr>\<rparr>" 0]
  by (simp add: decode_images_def png_file_def)

section \<open>The partition made on drop\<close>

lemma filterValidFiles_files: "files (filterValidFiles matches p fs) = fs"
  by (simp add: filterValidFiles_def checkFileAcceptance_def split: list.splits)



















section \<open>The callbacks of a drop\<close>

lemma handleDrop_disabled:
  "disabled p \<Longrightarrow> handleDrop matches p pf st fs = st\<lparr>cancelled := Suc (cancelled st)\<rparr>"
  by (simp add: handleDrop_def Let_def)

lemma handleDrop_calls:
  "\<not> disabled p \<Longrightarrow>
   calls (handleDrop matches p pf st fs) =
     calls st @
     (case onDrop p of
        Some cb \<Rightarrow>
          [OnDrop cb fs (acceptedFiles (filterValidFiles matches pf fs))
             (rejectedFiles (filterValidFiles matches pf fs))
             (getValidationErrors matches (rejectedFiles (filterValidFiles matches pf fs))
                (accept p) (minFileSize p) (maxFileSize p))]
      | None \<Rightarrow> []) @
     (case onDropAccepted p of
        Some cb \<Rightarrow>
          if acceptedFiles (filterValidFiles matches pf fs) \<noteq> []
          then [OnDropAccepted cb (acceptedFiles (filterValidFiles matches pf fs))] else []
      | None \<Rightarrow> []) @
     (case onDropRejected p of
        Some cb \<Rightarrow>
          if rejectedFiles (filterValidFiles matches pf fs) \<noteq> []
          then [OnDropRejected cb (rejectedFiles (filterValidFiles matches pf fs))] else []
      | None \<Rightarrow> [])"
  by (simp add: handleDrop_def Let_def filterValidFiles_files split: option.splits)

text \<open>
  The dependencies of the memoised \<open>handleDrop\<close> are those of the latest render: the
  handler in use always reads the current \<open>disabled\<close>, \<open>accept\<close> and callbacks.
\<close>

lemma mount_drop_deps: "drop_deps (drop_props (mount p)) = drop_deps p"
  by (simp add: mount_def)

lemma rerender_drop_deps: "drop_deps (drop_props (rerender h p)) = drop_deps p"
  by (simp add: rerender_def Let_def)

text \<open>
  C8. When the zone is not disabled, a drop (or a change of the file input) calls, in this
  order: \<open>onDrop\<close>, if provided, with the full file list, the accepted files, the
  rejected files and the error list; \<open>onDropAccepted\<close> with the accepted files, if and
  only if that list is not empty and the callback is provided; \<open>onDropRejected\<close> with
  the rejected files, if and only if that list is not empty and the callback is provided.
  This holds for every pair of props the handler and the filter it captured may read.
\<close>

theorem drop_callbacks:
  assumes "\<not> disabled p"
  shows "fired st (handleDrop matches p pf st fs) =
     (case onDrop p of
        Some cb \<Rightarrow>
          [OnDrop cb fs (acceptedFiles (filterValidFiles matches pf fs))
             (rejectedFiles (filterValidFiles matches pf fs))
             (getValidationErrors matches (rejectedFiles (filterValidFiles matches pf fs))
                (accept p) (minFileSize p) (maxFileSize p))]
      | None \<Rightarrow> []) @
     (case onDropAccepted p of
        Some cb \<Rightarrow>
          if acceptedFiles (filterValidFiles matches pf fs) \<noteq> []
          then [OnDropAccepted cb (acceptedFiles (filterValidFiles matches pf fs))] else []
      | None \<Rightarrow> []) @
     (case onDropRejected p of
        Some cb \<Rightarrow>
          if rejectedFiles (filterValidFiles matches pf fs) \<noteq> []
          then [OnDropRejected cb (rejectedFiles (filterValidFiles matches pf fs))] else []
      | None \<Rightarrow> []) \<and>
    ((\<exists>cb xs. OnDropAccepted cb xs \<in> set (fired st (handleDrop matches p pf st fs))) =
       (acceptedFiles (filterValidFiles matches pf fs) \<noteq> [] \<and> onDropAccepted p \<noteq> None)) \<and>
    ((\<exists>cb xs. OnDropRejected cb xs \<in> set (fired st (handleDrop matches p pf st fs))) =
       (rejectedFiles (filterValidFiles matches pf fs) \<noteq> [] \<and> onDropRejected p \<noteq> None))"
proof -
  have f: "fired st (handleDrop matches p pf st fs) =
     (case onDrop p of
        Some cb \<Rightarrow>
          [OnDrop cb fs (acceptedFiles (filterValidFiles matches pf fs))
             (rejectedFiles (filterValidFiles matches pf fs))
             (getValidationErrors matches (rejectedFiles (filterValidFiles matches pf fs))
                (accept p) (minFileSize p) (maxFileSize p))]
      | None \<Rightarrow> []) @
     (case onDropAccepted p of
        Some cb \<Rightarrow>
          if acceptedFiles (filterValidFiles matches pf fs) \<noteq> []
          then [OnDropAccepted cb (acceptedFiles (filterValidFiles matches pf fs))] else []
      | None \<Rightarrow> []) @
     (case onDropRejected p of
        Some cb \<Rightarrow>
          if rejectedFiles (filterValidFiles matches pf fs) \<noteq> []
          then [OnDropRejected cb (rejectedFiles (filterValidFiles matches pf fs))] else []
      | None \<Rightarrow> [])"
    unfolding fired_def handleDrop_calls [OF assms] by simp
  have a: "(\<exists>cb xs. OnDropAccepted cb xs \<in> set (fired st (handleDrop matches p pf st fs))) =
       (acceptedFiles (filterValidFiles matches pf fs) \<noteq> [] \<and> onDropAccepted p \<noteq> None)"
    unfolding f
    by (cases "onDrop p"; cases "onDropAccepted p"; cases "onDropRejected p") simp_all
  have r: "(\<exists>cb xs. OnDropRejected cb xs \<in> set (fired st (handleDrop matches p pf st fs))) =
       (rejectedFiles (filterValidFiles matches pf fs) \<noteq> [] \<and> onDropRejected p \<noteq> None)"
    unfolding f
    by (cases "onDrop p"; cases "onDropAccepted p"; cases "onDropRejected p") simp_all
  from f a r show ?thesis by (intro conjI)
qed

theorem drop_callbacks_witness:
  "fired initial_state (handleDrop matches_every_file
      (default_props\<lparr>maxFileSize := Some 10, onDrop := Some 7, onDropAccepted := Some 8,
         onDropRejected := Some 9\<rparr>)
      (default_props\<lparr>maxFileSize := Some 10, onDrop := Some 7, onDropAccepted := Some 8,
         onDropRejected := Some 9\<rparr>) initial_state [png_file 2 5, png_file 3 20]) =
     [OnDrop 7 [png_file 2 5, png_file 3 20] [png_file 2 5] [png_file 3 20]
        [\<lparr>error_file = png_file 3 20, kind = SizeTooLarge\<rparr>],
      OnDropAccepted 8 [png_file 2 5], OnDropRejected 9 [png_file 3 20]]"
proof -
  let ?p = "default_props\<lparr>maxFileSize := Some 10, onDrop := Some 7, onDropAccepted := Some 8,
         onDropRejected := Some 9\<rparr>"
  have h: "\<not> disabled ?p" by (simp add: default_props_def)
  have r: "filterValidFiles matches_every_file ?p [png_file 2 5, png_file 3 20] =
      \<lparr>files = [png_file 2 5, png_file 3 20], acceptedFiles = [png_file 2 5],
       rejectedFiles = [png_file 3 20]\<rparr>"
    by (simp add: filterValidFiles_def checkFileAcceptance_def file_valid_def within_bounds_def
        matches_every_file_def default_props_def png_file_def)
  have e: "getValidationErrors matches_every_file [png_file 3 20] (accept ?p) (minFileSize ?p)
      (maxFileSize ?p) = [\<lparr>error_file = png_file 3 20, kind = SizeTooLarge\<rparr>]"
    by (simp add: getValidationErrors_def rejection_kind_def matches_every_file_def
        default_props_def png_file_def)
  have c: "onDrop ?p = Some 7" "onDropAccepted ?p = Some 8" "onDropRejected ?p = Some 9"
    by simp_all
  from drop_callbacks [OF h, of initial_state matches_every_file ?p
      "[png_file 2 5, png_file 3 20]"]
  have x: "fired initial_state (handleDrop matches_every_file ?p ?p initial_state
      [png_file 2 5, png_file 3 20]) =
     [OnDrop 7 [png_file 2 5, png_file 3 20] [png_file 2 5] [png_file 3 20]
        (getValidationErrors matches_every_file [png_file 3 20] (accept ?p) (minFileSize ?p)
           (maxFileSize ?p)),
      OnDropAccepted 8 [png_file 2 5], OnDropRejected 9 [png_file 3 20]]"
    by (simp add: r c)
  show ?thesis by (simp only: x e)
qed

text \<open>
  C10. When the zone is disabled, a drop calls none of the callbacks and leaves
  \<open>hasError\<close>, \<open>dragEnter\<close> and the remembered rejected files as they were. With
  the zone enabled and \<open>onDrop\<close> provided, the same drop does call a callback, and
  resets \<open>hasError\<close> and \<open>dragEnter\<close>. This holds for every pair of props the handler and
  the filter it captured may read.
\<close>

theorem disabled_drop_is_inert:
  "(disabled p \<longrightarrow>
      calls (handleDrop matches p pf st fs) = calls st \<and>
      hasError (handleDrop matches p pf st fs) = hasError st \<and>
      dragEnter (handleDrop matches p pf st fs) = dragEnter st \<and>
      draggedRejectedFiles (handleDrop matches p pf st fs) = draggedRejectedFiles st) \<and>
   (\<not> disabled p \<and> onDrop p \<noteq> None \<longrightarrow>
      calls (handleDrop matches p pf st fs) \<noteq> calls st \<and>
      \<not> hasError (handleDrop matches p pf st fs) \<and>
      \<not> dragEnter (handleDrop matches p pf st fs))"
proof (intro conjI impI)
  assume d: "disabled p"
  show "calls (handleDrop matches p pf st fs) = calls st"
    "hasError (handleDrop matches p pf st fs) = hasError st"
    "dragEnter (handleDrop matches p pf st fs) = dragEnter st"
    "draggedRejectedFiles (handleDrop matches p pf st fs) = draggedRejectedFiles st"
    by (simp_all add: handleDrop_disabled [OF d])
next
  assume a: "\<not> disabled p \<and> onDrop p \<noteq> None"
  then obtain cb where cb: "onDrop p = Some cb" by auto
  from a have nd: "\<not> disabled p" by simp
  show "calls (handleDrop matches p pf st fs) \<noteq> calls st"
    by (simp add: handleDrop_calls [OF nd] cb)
  from nd show "\<not> hasError (handleDrop matches p pf st fs)"
    by (simp add: handleDrop_def Let_def)
  from nd show "\<not> dragEnter (handleDrop matches p pf st fs)"
    by (simp add: handleDrop_def Let_def)
qed

theorem disabled_drop_is_inert_witness:
  "calls (handleDrop matches_every_file
      (default_props\<lparr>disabled := True, onDrop := Some 7, onDropAccepted := Some 8,
         onDropRejected := Some 9\<rparr>)
      (default_props\<lparr>disabled := True, onDrop := Some 7, onDropAccepted := Some 8,
         onDropRejected := Some 9\<rparr>)
      (initial_state\<lparr>hasError := True, dragEnter := True\<rparr>) [png_file 1 1]) = [] \<and>
   hasError (handleDrop matches_every_file
      (default_props\<lparr>disabled := True, onDrop := Some 7, onDropAccepted := Some 8,
         onDropRejected := Some 9\<rparr>)
      (default_props\<lparr>disabled := True, onDrop := Some 7, onDropAccepted := Some 8,
         onDropRejected := Some 9\<rparr>)
      (initial_state\<lparr>hasError := True, dragEnter := True\<rparr>) [png_file 1 1]) \<and>
   dragEnter (handleDrop matches_every_file
      (default_props\<lparr>disabled := True, onDrop := Some 7, onDropAccepted := Some 8,
         onDropRejected := Some 9\<rparr>)
      (default_props\<lparr>disabled := True, onDrop := Some 7, onDropAccepted := Some 8,
         onDropRejected := Some 9\<rparr>)
      (initial_state\<lparr>hasError := True, dragEnter := True\<rparr>) [png_file 1 1]) \<and>
   calls (handleDrop matches_every_file
      (default_props\<lparr>onDrop := Some 7, onDropAccepted := Some 8, onDropRejected := Some 9\<rparr>)
      (default_props\<lparr>onDrop := Some 7, onDropAccepted := Some 8, onDropRejected := Some 9\<rparr>)
      (initial_state\<lparr>hasError := True, dragEnter := True\<rparr>) [png_file 1 1]) \<noteq> []"
proof -
  let ?d = "default_props\<lparr>disabled := True, onDrop := Some 7, onDropAccepted := Some 8,
         onDropRejected := Some 9\<rparr>"
  let ?e = "default_props\<lparr>onDrop := Some 7, onDropAccepted := Some 8, onDropRejected := Some 9\<rparr>"
  let ?st = "initial_state\<lparr>hasError := True, dragEnter := True\<rparr>"
  have hd: "disabled ?d" by simp
  have he: "\<not> disabled ?e \<and> onDrop ?e \<noteq> None" by (simp add: default_props_def)
  have s: "calls ?st = []" "hasError ?st" "dragEnter ?st" by (simp_all add: initial_state_def)
  note D = disabled_drop_is_inert [of ?d matches_every_file ?d ?st "[png_file 1 1]"]
  note E = disabled_drop_is_inert [of ?e matches_every_file ?e ?st "[png_file 1 1]"]
  from D hd s have 1: "calls (handleDrop matches_every_file ?d ?d ?st [png_file 1 1]) = []"
    and 2: "hasError (handleDrop matches_every_file ?d ?d ?st [png_file 1 1])"
    and 3: "dragEnter (handleDrop matches_every_file ?d ?d ?st [png_file 1 1])"
    by simp_all
  from E he s have 4: "calls (handleDrop matches_every_file ?e ?e ?st [png_file 1 1]) \<noteq> []"
    by simp
  from 1 2 3 4 show ?thesis by (intro conjI)
qed

section \<open>The cardinality rule and the total size on a drop\<close>

text \<open>
  C3, at a drop zone first rendered with \<open>allowMultiple\<close> true (and the three callbacks 7,
  8, 9) and rendered again with \<open>allowMultiple\<close> false and nothing else changed. The
  second render memoises a new \<open>filterValidFiles\<close>, which would accept one file only, but
  no dependency of \<open>handleDrop\<close> has changed: the handler in use still calls the
  \<open>filterValidFiles\<close> of the first render, and a drop of three valid files accepts all
  three and rejects none.
\<close>

theorem stale_filter_accepts_all:
  "allowMultiple (filter_props (rerender
      (mount (default_props\<lparr>onDrop := Some 7, onDropAccepted := Some 8,
         onDropRejected := Some 9\<rparr>))
      (default_props\<lparr>allowMultiple := False, onDrop := Some 7, onDropAccepted := Some 8,
         onDropRejected := Some 9\<rparr>))) = False \<and>
   acceptedFiles (filterValidFiles matches_every_file
      (default_props\<lparr>allowMultiple := False, onDrop := Some 7, onDropAccepted := Some 8,
         onDropRejected := Some 9\<rparr>)
      [png_file 2 10, png_file 3 20, png_file 4 30]) = [png_file 2 10] \<and>
   calls (drop_event matches_every_file
      (rerender
         (mount (default_props\<lparr>onDrop := Some 7, onDropAccepted := Some 8,
            onDropRejected := Some 9\<rparr>))
         (default_props\<lparr>allowMultiple := False, onDrop := Some 7, onDropAccepted := Some 8,
            onDropRejected := Some 9\<rparr>))
      initial_state [png_file 2 10, png_file 3 20, png_file 4 30]) =
     [OnDrop 7 [png_file 2 10, png_file 3 20, png_file 4 30]
        [png_file 2 10, png_file 3 20, png_file 4 30] [] [],
      OnDropAccepted 8 [png_file 2 10, png_file 3 20, png_file 4 30]]"
  by (simp add: drop_event_def rerender_def mount_def filter_deps_def drop_deps_def
      handleDrop_def filterValidFiles_def checkFileAcceptance_def file_valid_def
      within_bounds_def getValidationErrors_def matches_every_file_def default_props_def
      initial_state_def Let_def)

text \<open>
  C4, at a freshly mounted drop zone with \<open>maxTotalFileSize\<close> of 10 MB (and the three
  callbacks 7, 8, 9) and a drop of two valid files of 6 MB each: both files are accepted,
  none is rejected and the error list is empty. Neither helper is passed
  \<open>maxTotalFileSize\<close>.
\<close>

theorem total_size_ignored:
  "calls (drop_event matches_every_file
      (mount (default_props\<lparr>maxTotalFileSize := Some (10 * 1024 * 1024), onDrop := Some 7,
         onDropAccepted := Some 8, onDropRejected := Some 9\<rparr>))
      initial_state [png_file 2 (6 * 1024 * 1024), png_file 3 (6 * 1024 * 1024)]) =
     [OnDrop 7 [png_file 2 (6 * 1024 * 1024), png_file 3 (6 * 1024 * 1024)]
        [png_file 2 (6 * 1024 * 1024), png_file 3 (6 * 1024 * 1024)] [] [],
      OnDropAccepted 8 [png_file 2 (6 * 1024 * 1024), png_file 3 (6 * 1024 * 1024)]]"
  by (simp add: drop_event_def mount_def handleDrop_def filterValidFiles_def
      checkFileAcceptance_def file_valid_def within_bounds_def getValidationErrors_def
      matches_every_file_def default_props_def initial_state_def Let_def)

section \<open>The panel's aspect ratio\<close>

lemma circle_test:
  "regex_test ''circle'' (layout_string l) = (l = Circle)"
  by (cases l) simp_all

lemma digits_value_chars:
  "digits_value acc s = Some n \<Longrightarrow> c \<in> set s \<Longrightarrow> digit_value c \<noteq> None"
proof (induction s arbitrary: acc)
  case Nil
  then show ?case by simp
next
  case (Cons x xs)
  from Cons.prems(1) obtain d where d: "digit_value x = Some d"
    and rest: "digits_value (10 * acc + d) xs = Some n"
    by (cases "digit_value x") simp_all
  show ?case
  proof (cases "c = x")
    case True
    with d show ?thesis by simp
  next
    case False
    with Cons.prems(2) have "c \<in> set xs" by simp
    from Cons.IH [OF rest this] show ?thesis .
  qed
qed

lemma colon_no_digit: "digit_value CHR '':'' = None"
  by (simp add: digit_value_def)

lemma parse_digits_no_colon: "parse_digits s = Some n \<Longrightarrow> CHR '':'' \<notin> set s"
proof
  assume a: "parse_digits s = Some n" and b: "CHR '':'' \<in> set s"
  from a have "digits_value 0 s = Some n" by (simp add: parse_digits_def split: if_splits)
  from digits_value_chars [OF this b] colon_no_digit show False by simp
qed

lemma parse_number_no_colon:
  assumes "parse_number s = Some q"
  shows "CHR '':'' \<notin> set s"
proof (cases "dropWhile (\<lambda>c. c \<noteq> CHR ''.'') s")
  case Nil
  with assms obtain n where "parse_digits s = Some n"
    by (auto simp: parse_number_def)
  then show ?thesis by (rule parse_digits_no_colon)
next
  case (Cons d fdigits)
  with assms obtain a b where a: "parse_digits (takeWhile (\<lambda>c. c \<noteq> CHR ''.'') s) = Some a"
    and b: "parse_digits fdigits = Some b"
    by (auto simp: parse_number_def split: option.splits)
  have "d = hd (dropWhile (\<lambda>c. c \<noteq> CHR ''.'') s)" by (simp add: Cons)
  moreover have "dropWhile (\<lambda>c. c \<noteq> CHR ''.'') s \<noteq> []" by (simp add: Cons)
  ultimately have d: "d = CHR ''.''"
    using hd_dropWhile [of "\<lambda>c. c \<noteq> CHR ''.''" s] by simp
  have "takeWhile (\<lambda>c. c \<noteq> CHR ''.'') s @ dropWhile (\<lambda>c. c \<noteq> CHR ''.'') s = s"
    by (rule takeWhile_dropWhile_id)
  then have "s = takeWhile (\<lambda>c. c \<noteq> CHR ''.'') s @ d # fdigits"
    by (simp add: Cons)
  then have "set s = set (takeWhile (\<lambda>c. c \<noteq> CHR ''.'') s @ d # fdigits)"
    by simp
  then have "set s = set (takeWhile (\<lambda>c. c \<noteq> CHR ''.'') s) \<union> insert d (set fdigits)"
    by (simp only: set_append list.set)
  with parse_digits_no_colon [OF a] parse_digits_no_colon [OF b] d show ?thesis by simp
qed

lemma ratio_of_string:
  assumes "parse_number w = Some a" and "parse_number h = Some b"
  shows "getNumericAspectRatioFromString (Some (w @ CHR '':'' # h)) = Inr (ratio a b)"
proof -
  have n: "\<And>c. c \<in> set w \<Longrightarrow> c \<noteq> CHR '':''"
    using parse_number_no_colon [OF assms(1)] by auto
  have t: "takeWhile (\<lambda>c. c \<noteq> CHR '':'') (w @ CHR '':'' # h) = w"
    using n by (simp add: takeWhile_append2)
  have d: "dropWhile (\<lambda>c. c \<noteq> CHR '':'') (w @ CHR '':'' # h) = CHR '':'' # h"
    using n by (simp add: dropWhile_append2)
  show ?thesis
    unfolding getNumericAspectRatioFromString_def
    by (simp only: option.case t d list.case assms prod.case)
qed

text \<open>
  C7. When \<open>panelLayout\<close> is \<open>circle\<close> the panel's aspect ratio is 1, whatever
  \<open>panelAspectRatio\<close> says; for the other layouts it is what
  \<open>getNumericAspectRatioFromString\<close> makes of \<open>panelAspectRatio\<close>, which for a string
  \<open>W:H\<close> of two numbers (\<open>H\<close> not zero) is the number \<open>W/H\<close>.
\<close>

theorem panel_aspect_ratio:
  "(panelLayout p = Circle \<longrightarrow> getPanelAspectRatio p = Inr (Rational 1)) \<and>
   (panelLayout p \<noteq> Circle \<longrightarrow>
      getPanelAspectRatio p = getNumericAspectRatioFromString (panelAspectRatio p)) \<and>
   (panelLayout p \<noteq> Circle \<and> panelAspectRatio p = Some (w @ '':'' @ h) \<and>
    parse_number w = Some a \<and> parse_number h = Some b \<and> b \<noteq> 0 \<longrightarrow>
      getPanelAspectRatio p = Inr (Rational (a / b)))"
proof (intro conjI impI)
  assume "panelLayout p = Circle"
  then show "getPanelAspectRatio p = Inr (Rational 1)"
    by (simp add: getPanelAspectRatio_def circle_test)
next
  assume "panelLayout p \<noteq> Circle"
  then show "getPanelAspectRatio p = getNumericAspectRatioFromString (panelAspectRatio p)"
    by (simp add: getPanelAspectRatio_def circle_test)
next
  assume a: "panelLayout p \<noteq> Circle \<and> panelAspectRatio p = Some (w @ '':'' @ h) \<and>
    parse_number w = Some a \<and> parse_number h = Some b \<and> b \<noteq> 0"
  then have "getPanelAspectRatio p = getNumericAspectRatioFromString (Some (w @ CHR '':'' # h))"
    by (simp add: getPanelAspectRatio_def circle_test)
  also have "\<dots> = Inr (ratio a b)" using a by (simp add: ratio_of_string)
  also have "\<dots> = Inr (Rational (a / b))" using a by (simp add: ratio_def)
  finally show "getPanelAspectRatio p = Inr (Rational (a / b))" .
qed

theorem panel_aspect_ratio_witness:
  "getPanelAspectRatio (default_props\<lparr>panelLayout := Circle, panelAspectRatio := Some ''16:9''\<rparr>)
     = Inr (Rational 1) \<and>
   getPanelAspectRatio (default_props\<lparr>panelLayout := Compact, panelAspectRatio := Some ''4:3''\<rparr>)
     = Inr (Rational (4 / 3))"
proof -
  let ?c = "default_props\<lparr>panelLayout := Circle, panelAspectRatio := Some ''16:9''\<rparr>"
  let ?r = "default_props\<lparr>panelLayout := Compact, panelAspectRatio := Some ''4:3''\<rparr>"
  have c: "panelLayout ?c = Circle" by simp
  have r: "panelLayout ?r \<noteq> Circle \<and> panelAspectRatio ?r = Some (''4'' @ '':'' @ ''3'') \<and>
      parse_number ''4'' = Some 4 \<and> parse_number ''3'' = Some 3 \<and> (3 :: rat) \<noteq> 0"
    by (simp add: parse_number_def parse_digits_def digit_value_def)
  have 1: "getPanelAspectRatio ?c = Inr (Rational 1)"
    by (rule mp [OF conjunct1 [OF panel_aspect_ratio [of ?c]] c])
  have 2: "getPanelAspectRatio ?r = Inr (Rational (4 / 3))"
    by (rule mp [OF conjunct2 [OF conjunct2
          [OF panel_aspect_ratio [of ?r "''4''" "''3''" 4 3]]] r])
  from 1 2 show ?thesis by (rule conjI)
qed

end
